theory Spec2Isabelle
  imports Main
begin

section \<open>Request data\<close>

text \<open>
  \<^verbatim>\<open>express.json()\<close> hands every route a parsed JSON object as \<^verbatim>\<open>req.body\<close>.
  A body is a finite map from keys to values; a key that is missing reads as
  \<^verbatim>\<open>undefined\<close>, here \<open>None\<close>. A value is \<^verbatim>\<open>null\<close>, a boolean, a number, a string or
  an array of values. \<open>JNum\<close> carries the number as \<^verbatim>\<open>JSON.parse\<close> delivers it, and an
  integral one: a number with a fractional part and a nested object as the value of
  a field are not represented, and the theorems say nothing of bodies that have them.
\<close>

datatype json = JNull | JBool bool | JNum int | JStr string | JArr "json list"

type_synonym body = "string \<rightharpoonup> json"

text \<open>
  A query-string parameter, as the \<^verbatim>\<open>qs\<close> parser of Express delivers it: a string,
  an array (a repeated parameter) or an object (bracket notation).
\<close>

datatype qvalue = QStr string | QArr "qvalue list" | QObj "(string \<times> qvalue) list"

section \<open>Numbers and strings of JavaScript\<close>

text \<open>
  \<^verbatim>\<open>String(n)\<close> for an integral number below 10^21 in magnitude: the decimal numeral,
  with a minus sign below zero.
\<close>

definition digitChar :: "nat \<Rightarrow> char" where
  "digitChar d = char_of (48 + d)"

fun natToString :: "nat \<Rightarrow> string" where
  "natToString n =
     (if n < 10 then [digitChar n] else natToString (n div 10) @ [digitChar (n mod 10)])"

declare natToString.simps [simp del]

definition numberToString :: "int \<Rightarrow> string" where
  "numberToString n =
     (if n < 0 then CHR ''-'' # natToString (nat (- n)) else natToString (nat n))"

text \<open>
  The white space that \<^verbatim>\<open>parseInt\<close> strips from the start of a string: the code points
  WhiteSpace and LineTerminator of ECMAScript. A string is its UTF-8 bytes, so that a
  code point beyond ASCII is two or three characters. \<open>whiteSpaceLength\<close> is the
  number of characters of the white space code point at the start, or 0.
\<close>

definition whiteSpaceLength :: "string \<Rightarrow> nat" where
  "whiteSpaceLength s =
     (let b = (map of_char (take 3 s) :: nat list) in
      if take 1 b \<in> set [[9], [10], [11], [12], [13], [32]] then 1
      else if take 2 b = [0xC2, 0xA0] then 2
      else if b \<in> set ([[0xE1, 0x9A, 0x80], [0xE2, 0x80, 0xA8], [0xE2, 0x80, 0xA9],
                        [0xE2, 0x80, 0xAF], [0xE2, 0x81, 0x9F], [0xE3, 0x80, 0x80],
                        [0xEF, 0xBB, 0xBF]]
                       @ map (\<lambda>k. [0xE2, 0x80, k]) [0x80 ..< 0x8B])
      then 3
      else 0)"

function trimStart :: "string \<Rightarrow> string" where
  "trimStart s =
     (if whiteSpaceLength s = 0 then s else trimStart (drop (whiteSpaceLength s) s))"
  by pat_completeness auto
termination
proof (relation "measure length")
  show "wf (measure length)" by simp
next
  fix s :: string
  assume "whiteSpaceLength s \<noteq> 0"
  moreover have "whiteSpaceLength [] = 0" by (simp add: whiteSpaceLength_def)
  ultimately have "s \<noteq> []" by auto
  then show "(drop (whiteSpaceLength s) s, s) \<in> measure length"
    using \<open>whiteSpaceLength s \<noteq> 0\<close> by simp
qed

declare trimStart.simps [simp del]

text \<open>
  \<^verbatim>\<open>parseInt(string)\<close> with no radix, after the steps of ECMAScript: strip leading
  white space, read a sign, take radix 16 after a \<^verbatim>\<open>0x\<close> or \<^verbatim>\<open>0X\<close> prefix and radix 10
  otherwise, and read the longest prefix of digits of that radix. No digit at all
  gives \<^verbatim>\<open>NaN\<close>, here \<open>None\<close>; otherwise \<open>mathInt\<close> is the integer that the digits
  denote.
\<close>

definition digitValue :: "char \<Rightarrow> nat" where
  "digitValue c =
     (let k = (of_char c :: nat) in
      if 48 \<le> k \<and> k \<le> 57 then k - 48
      else if 97 \<le> k \<and> k \<le> 122 then k - 87
      else if 65 \<le> k \<and> k \<le> 90 then k - 55
      else 36)"

definition radixValue :: "nat \<Rightarrow> string \<Rightarrow> int" where
  "radixValue R Z = foldl (\<lambda>acc c. acc * int R + int (digitValue c)) 0 Z"

definition mathInt :: "string \<Rightarrow> int option" where
  "mathInt inputString =
     (let S = trimStart inputString;
          sign = (if S \<noteq> [] \<and> hd S = CHR ''-'' then - 1 else 1 :: int);
          S1 = (if S \<noteq> [] \<and> (hd S = CHR ''+'' \<or> hd S = CHR ''-'') then tl S else S);
          hex = (case S1 of
                   c0 # c1 # _ \<Rightarrow> c0 = CHR ''0'' \<and> (c1 = CHR ''x'' \<or> c1 = CHR ''X'')
                 | _ \<Rightarrow> False);
          R = (if hex then 16 else 10);
          S2 = (if hex then drop 2 S1 else S1);
          Z = takeWhile (\<lambda>c. digitValue c < R) S2
      in if Z = [] then None else Some (sign * radixValue R Z))"

text \<open>
  The result of \<^verbatim>\<open>parseInt\<close> is a Number: the integer is rounded to the nearest
  double, to the even one of two that are equally near. Up to 2^53 every integer is
  a double. (An integer that rounds to \<^verbatim>\<open>Infinity\<close> is left as the integer it rounds
  to without the bound; no stored id is that large.)
\<close>

function bitLength :: "int \<Rightarrow> nat" where
  "bitLength n = (if n \<le> 0 then 0 else Suc (bitLength (n div 2)))"
  by pat_completeness auto
termination
  by (relation "measure nat") auto

declare bitLength.simps [simp del]

definition roundToDouble :: "int \<Rightarrow> int" where
  "roundToDouble n =
     (if \<bar>n\<bar> \<le> 2 ^ 53 then n
      else
        let m = \<bar>n\<bar>;
            e = bitLength m - 53;
            q = m div 2 ^ e;
            r = m mod 2 ^ e;
            q' = (if 2 * r > 2 ^ e \<or> (2 * r = 2 ^ e \<and> odd q) then q + 1 else q)
        in sgn n * (q' * 2 ^ e))"

definition parseInt :: "string \<Rightarrow> int option" where
  "parseInt inputString = map_option roundToDouble (mathInt inputString)"

section \<open>The Task model (models/Task.js)\<close>

text \<open>
  A stored document with the five paths of \<^verbatim>\<open>TaskSchema\<close>. The two required strings are
  always present in a stored document; \<open>status\<close>, \<open>creationDate\<close> and \<open>id\<close> have no
  validator, so that a stored value can be \<^verbatim>\<open>null\<close>, here \<open>None\<close>. A date is its time
  value in milliseconds. The paths \<^verbatim>\<open>_id\<close> and \<^verbatim>\<open>__v\<close> that Mongoose adds by itself are
  not represented.
\<close>

record task =
  title :: string
  status :: "bool option"
  description :: string
  creationDate :: "int option"
  id' :: "int option"

text \<open>
  The database: the collection in its natural (insertion) order, and the counter
  document that the \<^verbatim>\<open>mongoose-sequence\<close> plugin keeps for \<^verbatim>\<open>inc_field: 'id'\<close>.
\<close>

record store =
  tasks :: "task list"
  seq :: int

definition emptyStore :: store where
  "emptyStore = \<lparr>tasks = [], seq = 0\<rparr>"

datatype store_error = CastError | ValidationError | DuplicateKey

text \<open>
  Two conversions of Mongoose's casts are left to the JavaScript engine and are
  parameters here: \<^verbatim>\<open>Number(s)\<close> and \<^verbatim>\<open>Date.parse(s)\<close> of a string, each \<open>None\<close> for
  \<^verbatim>\<open>NaN\<close>. Only casting a string to the paths \<open>id\<close> and \<open>creationDate\<close> uses them
  (an array cast to a date goes through its string).
\<close>

text \<open>
  The string of an array, \<^verbatim>\<open>Array.prototype.toString\<close>: the strings of the elements,
  joined by commas, with the empty string for \<^verbatim>\<open>null\<close>.
\<close>

fun arrayToString :: "json list \<Rightarrow> string" and itemToString :: "json \<Rightarrow> string" where
  "arrayToString [] = []"
| "arrayToString [x] = itemToString x"
| "arrayToString (x # y # ys) = itemToString x @ '','' @ arrayToString (y # ys)"
| "itemToString JNull = []"
| "itemToString (JBool b) = (if b then ''true'' else ''false'')"
| "itemToString (JNum n) = numberToString (roundToDouble n)"
| "itemToString (JStr s) = s"
| "itemToString (JArr xs) = arrayToString xs"

record engine =
  stringToNumber :: "string \<Rightarrow> int option"
  dateParse :: "string \<Rightarrow> int option"

subsection \<open>Casting of the schema types\<close>

text \<open>
  The casts of the types String, Boolean, Number and Date, as Mongoose has them from
  version 5 on. \<open>Inr None\<close> is the value \<^verbatim>\<open>null\<close>, which every cast lets through.
  A number is read as the double that \<^verbatim>\<open>JSON.parse\<close> makes of it.
\<close>

fun castString :: "json \<Rightarrow> store_error + string option" where
  "castString JNull = Inr None"
| "castString (JArr xs) = Inl CastError"
| "castString (JBool b) = Inr (Some (if b then ''true'' else ''false''))"
| "castString (JNum n) = Inr (Some (numberToString (roundToDouble n)))"
| "castString (JStr s) = Inr (Some s)"

definition convertToTrue :: "json list" where
  "convertToTrue = [JBool True, JStr ''true'', JNum 1, JStr ''1'', JStr ''yes'']"

definition convertToFalse :: "json list" where
  "convertToFalse = [JBool False, JStr ''false'', JNum 0, JStr ''0'', JStr ''no'']"

definition castBoolean :: "json \<Rightarrow> store_error + bool option" where
  "castBoolean v =
     (if v \<in> set convertToTrue then Inr (Some True)
      else if v \<in> set convertToFalse then Inr (Some False)
      else if v = JNull then Inr None
      else Inl CastError)"

fun castNumber :: "engine \<Rightarrow> json \<Rightarrow> store_error + int option" where
  "castNumber E JNull = Inr None"
| "castNumber E (JStr s) =
     (if s = [] then Inr None
      else case stringToNumber E s of None \<Rightarrow> Inl CastError | Some n \<Rightarrow> Inr (Some n))"
| "castNumber E (JBool b) = Inr (Some (if b then 1 else 0))"
| "castNumber E (JNum n) = Inr (Some (roundToDouble n))"
| "castNumber E (JArr xs) = Inl CastError"

text \<open>\<^verbatim>\<open>new Date(n)\<close> is an invalid date beyond 8.64e15 milliseconds from the epoch.\<close>

definition newDate :: "int \<Rightarrow> store_error + int option" where
  "newDate n = (if \<bar>n\<bar> \<le> 8640000000000000 then Inr (Some n) else Inl CastError)"

fun castDate :: "engine \<Rightarrow> json \<Rightarrow> store_error + int option" where
  "castDate E JNull = Inr None"
| "castDate E (JStr s) =
     (if s = [] then Inr None
      else case stringToNumber E s of
        Some n \<Rightarrow>
          if n \<ge> 275761 \<or> n < - 271820 then newDate n
          else (case dateParse E s of None \<Rightarrow> Inl CastError | Some d \<Rightarrow> Inr (Some d))
      | None \<Rightarrow> (case dateParse E s of None \<Rightarrow> Inl CastError | Some d \<Rightarrow> Inr (Some d)))"
| "castDate E (JBool b) = Inl CastError"
| "castDate E (JNum n) = newDate (roundToDouble n)"
| "castDate E (JArr xs) =
     (case dateParse E (arrayToString xs) of None \<Rightarrow> Inl CastError | Some d \<Rightarrow> Inr (Some d))"

text \<open>The \<^verbatim>\<open>required: true\<close> validator of a String path.\<close>

fun checkRequired :: "string option \<Rightarrow> bool" where
  "checkRequired None = False"
| "checkRequired (Some s) = (s \<noteq> [])"

subsection \<open>Queries\<close>

text \<open>
  \<^verbatim>\<open>Task.find(filter)\<close> with the filter \<^verbatim>\<open>{status: b}\<close> (\<open>Some b\<close>) or with none.
\<close>

fun Task_find :: "store \<Rightarrow> bool option \<Rightarrow> task list" where
  "Task_find s None = tasks s"
| "Task_find s (Some b) = filter (\<lambda>t. status t = Some b) (tasks s)"

text \<open>
  The filter \<^verbatim>\<open>{id: parseInt(id)}\<close> of the three routes on one task. Mongoose casts the
  filter to the schema before it queries, and casting \<^verbatim>\<open>NaN\<close> to Number fails.
\<close>

fun castFilter :: "int option \<Rightarrow> store_error + int" where
  "castFilter None = Inl CastError"
| "castFilter (Some n) = Inr n"

definition matches :: "int \<Rightarrow> task \<Rightarrow> bool" where
  "matches n t = (id' t = Some n)"

definition Task_findOne :: "store \<Rightarrow> int option \<Rightarrow> store_error + task option" where
  "Task_findOne s q =
     (case castFilter q of
        Inl e \<Rightarrow> Inl e
      | Inr n \<Rightarrow> Inr (find (matches n) (tasks s)))"

fun removeFirst :: "('a \<Rightarrow> bool) \<Rightarrow> 'a list \<Rightarrow> 'a list" where
  "removeFirst P [] = []"
| "removeFirst P (x # xs) = (if P x then xs else x # removeFirst P xs)"

fun replaceFirst :: "('a \<Rightarrow> bool) \<Rightarrow> 'a \<Rightarrow> 'a list \<Rightarrow> 'a list" where
  "replaceFirst P y [] = []"
| "replaceFirst P y (x # xs) = (if P x then y # xs else x # replaceFirst P y xs)"

definition Task_findOneAndDelete ::
  "store \<Rightarrow> int option \<Rightarrow> store_error + (store \<times> task option)" where
  "Task_findOneAndDelete s q =
     (case castFilter q of
        Inl e \<Rightarrow> Inl e
      | Inr n \<Rightarrow>
          (case find (matches n) (tasks s) of
             None \<Rightarrow> Inr (s, None)
           | Some t \<Rightarrow> Inr (s\<lparr>tasks := removeFirst (matches n) (tasks s)\<rparr>, Some t)))"

subsection \<open>Updates\<close>

text \<open>
  \<^verbatim>\<open>findOneAndUpdate(filter, req.body, {new: true, runValidators: true})\<close>. A body
  without update operators is taken as a \<^verbatim>\<open>$set\<close>; strict mode drops every key that is
  not a path of the schema; each remaining value is cast to the type of its path.
  In \<open>setDoc\<close>, \<open>None\<close> says that the path is not in the update.

  This is the update of a plain body. The two paths that Mongoose adds to the schema
  by itself, \<^verbatim>\<open>_id\<close> and \<^verbatim>\<open>__v\<close>, update operators (keys that start with \<^verbatim>\<open>$\<close>) and
  dotted keys are not followed: what \<open>castUpdate\<close> gives for a body that has one of
  them is not what Mongoose does, and a theorem that depends on the difference
  assumes \<open>plainBody\<close>.
\<close>

definition plainBody :: "body \<Rightarrow> bool" where
  "plainBody b =
     (\<forall>k. b k \<noteq> None \<longrightarrow>
        k \<noteq> ''_id'' \<and> k \<noteq> ''__v'' \<and> take 1 k \<noteq> ''$'' \<and> CHR ''.'' \<notin> set k)"

record setDoc =
  setTitle :: "string option option"
  setStatus :: "bool option option"
  setDescription :: "string option option"
  setCreationDate :: "int option option"
  setId :: "int option option"

fun castPath :: "(json \<Rightarrow> store_error + 'a) \<Rightarrow> json option \<Rightarrow> store_error + 'a option" where
  "castPath c None = Inr None"
| "castPath c (Some v) = (case c v of Inl e \<Rightarrow> Inl e | Inr x \<Rightarrow> Inr (Some x))"

definition castUpdate :: "engine \<Rightarrow> body \<Rightarrow> store_error + setDoc" where
  "castUpdate E b =
     (case castPath castString (b ''title'') of Inl e \<Rightarrow> Inl e | Inr t \<Rightarrow>
      case castPath castBoolean (b ''status'') of Inl e \<Rightarrow> Inl e | Inr st \<Rightarrow>
      case castPath castString (b ''description'') of Inl e \<Rightarrow> Inl e | Inr d \<Rightarrow>
      case castPath (castDate E) (b ''creationDate'') of Inl e \<Rightarrow> Inl e | Inr cd \<Rightarrow>
      case castPath (castNumber E) (b ''id'') of Inl e \<Rightarrow> Inl e | Inr i \<Rightarrow>
        Inr \<lparr>setTitle = t, setStatus = st, setDescription = d,
             setCreationDate = cd, setId = i\<rparr>)"

text \<open>The update validators run the validators of each path that the update sets.\<close>

definition updateValidators :: "setDoc \<Rightarrow> bool" where
  "updateValidators u =
     ((case setTitle u of None \<Rightarrow> True | Some v \<Rightarrow> checkRequired v) \<and>
      (case setDescription u of None \<Rightarrow> True | Some v \<Rightarrow> checkRequired v))"

definition applySet :: "setDoc \<Rightarrow> task \<Rightarrow> task" where
  "applySet u t =
     \<lparr>title = (case setTitle u of Some (Some x) \<Rightarrow> x | _ \<Rightarrow> title t),
      status = (case setStatus u of Some v \<Rightarrow> v | None \<Rightarrow> status t),
      description = (case setDescription u of Some (Some x) \<Rightarrow> x | _ \<Rightarrow> description t),
      creationDate = (case setCreationDate u of Some v \<Rightarrow> v | None \<Rightarrow> creationDate t),
      id' = (case setId u of Some v \<Rightarrow> v | None \<Rightarrow> id' t)\<rparr>"

text \<open>
  The filter is cast first, then the update, then the update validators run; only
  then the database is asked. The unique index on \<open>id\<close> refuses a write that would
  give two documents the same \<open>id\<close>.
\<close>

definition Task_findOneAndUpdate ::
  "engine \<Rightarrow> store \<Rightarrow> int option \<Rightarrow> body \<Rightarrow> store_error + (store \<times> task option)" where
  "Task_findOneAndUpdate E s q updateData =
     (case castFilter q of
        Inl e \<Rightarrow> Inl e
      | Inr n \<Rightarrow>
     (case castUpdate E updateData of
        Inl e \<Rightarrow> Inl e
      | Inr u \<Rightarrow>
          if \<not> updateValidators u then Inl ValidationError
          else
            (case find (matches n) (tasks s) of
               None \<Rightarrow> Inr (s, None)
             | Some t \<Rightarrow>
                 let t' = applySet u t in
                 if id' t' \<noteq> id' t \<and> id' t' \<in> set (map id' (tasks s))
                 then Inl DuplicateKey
                 else Inr (s\<lparr>tasks := replaceFirst (matches n) t' (tasks s)\<rparr>, Some t'))))"

subsection \<open>Creating a document\<close>

text \<open>
  \<^verbatim>\<open>new Task({title, status, description})\<close> casts the three values and applies the
  defaults of the schema to the paths left \<^verbatim>\<open>undefined\<close>: \<open>status\<close> becomes \<open>false\<close>
  and \<open>creationDate\<close> the current time. \<^verbatim>\<open>save()\<close> validates the document first; a
  value that did not cast is reported there. Then the hook of \<^verbatim>\<open>mongoose-sequence\<close>
  increments the counter and writes its new value to \<open>id\<close>, and the document is
  inserted, unless the unique index refuses it. The counter keeps its new value in
  either case. The package is not part of the repository; its counter is the one
  that the specification describes: read, incremented by one and assigned.
\<close>

fun nullish :: "'a option option \<Rightarrow> 'a option" where
  "nullish None = None"
| "nullish (Some v) = v"

definition new_Task ::
  "int \<Rightarrow> json option \<Rightarrow> json option \<Rightarrow> json option \<Rightarrow> store_error + task" where
  "new_Task now title_in status_in description_in =
     (case castPath castString title_in of Inl e \<Rightarrow> Inl ValidationError | Inr t \<Rightarrow>
     (case castPath castBoolean status_in of Inl e \<Rightarrow> Inl ValidationError | Inr st \<Rightarrow>
     (case castPath castString description_in of Inl e \<Rightarrow> Inl ValidationError | Inr d \<Rightarrow>
     (case (nullish t, nullish d) of
        (Some x, Some y) \<Rightarrow>
          if checkRequired (Some x) \<and> checkRequired (Some y)
          then Inr \<lparr>title = x,
                    status = (case st of None \<Rightarrow> Some False | Some v \<Rightarrow> v),
                    description = y,
                    creationDate = Some now,
                    id' = None\<rparr>
          else Inl ValidationError
      | _ \<Rightarrow> Inl ValidationError))))"

definition Task_save ::
  "store \<Rightarrow> int \<Rightarrow> json option \<Rightarrow> json option \<Rightarrow> json option \<Rightarrow> store \<times> (store_error + task)"
  where
  "Task_save s now title_in status_in description_in =
     (case new_Task now title_in status_in description_in of
        Inl e \<Rightarrow> (s, Inl e)
      | Inr t0 \<Rightarrow>
          let n = seq s + 1;
              t = t0\<lparr>id' := Some n\<rparr>;
              s1 = s\<lparr>seq := n\<rparr>
          in if Some n \<in> set (map id' (tasks s)) then (s1, Inl DuplicateKey)
             else (s1\<lparr>tasks := tasks s @ [t]\<rparr>, Inr t))"

section \<open>The routes (routes/taskRoutes.js)\<close>

text \<open>
  A response is the status code and the JSON that the handler sends. A handler's
  \<^verbatim>\<open>catch\<close> sends \<^verbatim>\<open>{message: error.message}\<close>; the text of the error is kept as the
  error itself.
\<close>

record verror =
  param :: string
  msg :: string
  val :: "json option"

datatype payload =
    Message string
  | ErrorMessage store_error
  | Errors "verror list"
  | Doc task
  | Docs "task list"

type_synonym response = "nat \<times> payload"

definition notFound :: string where
  "notFound = ''Tarea no encontrada''"

definition deleted :: string where
  "deleted = ''Tarea eliminada correctamente''"

subsection \<open>GET /\<close>

definition router_get_all :: "store \<Rightarrow> qvalue option \<Rightarrow> store \<times> response" where
  "router_get_all s status_q =
     (case status_q of
        Some v \<Rightarrow> (s, 200, Docs (Task_find s (Some (v = QStr ''true''))))
      | None \<Rightarrow> (s, 200, Docs (Task_find s None)))"

subsection \<open>GET /:id\<close>

definition router_get :: "store \<Rightarrow> string \<Rightarrow> store \<times> response" where
  "router_get s id_param =
     (case Task_findOne s (parseInt id_param) of
        Inl error \<Rightarrow> (s, 500, ErrorMessage error)
      | Inr None \<Rightarrow> (s, 404, Message notFound)
      | Inr (Some t) \<Rightarrow> (s, 200, Doc t))"

subsection \<open>POST /\<close>

text \<open>
  The validators of \<^verbatim>\<open>express-validator\<close> (versions 6 and 7). A chain runs its
  validator on the value of the field, or, when the value is an array, on each
  element of it; an empty array has nothing to fail. The validator tests the string
  form of the value: \<^verbatim>\<open>undefined\<close> and \<^verbatim>\<open>null\<close> give the empty string, an array
  the string form of its first element. \<open>isBoolean\<close> accepts the four strings of
  \<^verbatim>\<open>validator.js\<close>; \<open>optional()\<close> skips the chain when the field is \<^verbatim>\<open>undefined\<close>.
  Each failure is one entry of the result, with the element that failed.
\<close>

fun toString :: "json option \<Rightarrow> string" where
  "toString None = []"
| "toString (Some JNull) = []"
| "toString (Some (JBool b)) = (if b then ''true'' else ''false'')"
| "toString (Some (JNum n)) = numberToString (roundToDouble n)"
| "toString (Some (JStr s)) = s"
| "toString (Some (JArr [])) = []"
| "toString (Some (JArr (x # xs))) = itemToString x"

definition elements :: "json option \<Rightarrow> json option list" where
  "elements v = (case v of Some (JArr xs) \<Rightarrow> map Some xs | _ \<Rightarrow> [v])"

definition notEmpty :: "json option \<Rightarrow> bool" where
  "notEmpty x = (toString x \<noteq> [])"

definition isBoolean :: "json option \<Rightarrow> bool" where
  "isBoolean x = (toString x \<in> set [''true'', ''false'', ''1'', ''0''])"

definition titleMsg :: string where
  "titleMsg = ''El t'' @ [CHR 0xC3, CHR 0xAD] @ ''tulo es obligatorio''"

definition descriptionMsg :: string where
  "descriptionMsg = ''La descripci'' @ [CHR 0xC3, CHR 0xB3] @ ''n es obligatoria''"

definition statusMsg :: string where
  "statusMsg = ''El estado debe ser un valor booleano''"

text \<open>
  The three chains of the route, in the order in which they run: the field, whether
  the chain is \<open>optional()\<close>, the validator and the message.
\<close>

definition chains :: "(string \<times> bool \<times> (json option \<Rightarrow> bool) \<times> string) list" where
  "chains =
     [(''title'', False, notEmpty, titleMsg),
      (''description'', False, notEmpty, descriptionMsg),
      (''status'', True, isBoolean, statusMsg)]"

definition runChain :: "body \<Rightarrow> string \<times> bool \<times> (json option \<Rightarrow> bool) \<times> string \<Rightarrow> verror list" where
  "runChain b c =
     (case c of (field, optional, validator, message) \<Rightarrow>
        if optional \<and> b field = None then []
        else map (\<lambda>x. \<lparr>param = field, msg = message, val = x\<rparr>)
               (filter (\<lambda>x. \<not> validator x) (elements (b field))))"

definition validationResult :: "body \<Rightarrow> verror list" where
  "validationResult b = concat (map (runChain b) chains)"

definition router_post :: "store \<Rightarrow> int \<Rightarrow> body \<Rightarrow> store \<times> response" where
  "router_post s now b =
     (let errors = validationResult b in
      if errors \<noteq> [] then (s, 400, Errors errors)
      else
        (case Task_save s now (b ''title'') (b ''status'') (b ''description'') of
           (s', Inl error) \<Rightarrow> (s', 500, ErrorMessage error)
         | (s', Inr newTask) \<Rightarrow> (s', 201, Doc newTask)))"

subsection \<open>PUT /:id\<close>

definition router_put :: "engine \<Rightarrow> store \<Rightarrow> string \<Rightarrow> body \<Rightarrow> store \<times> response" where
  "router_put E s id_param updateData =
     (case Task_findOneAndUpdate E s (parseInt id_param) updateData of
        Inl error \<Rightarrow> (s, 500, ErrorMessage error)
      | Inr (s', None) \<Rightarrow> (s', 404, Message notFound)
      | Inr (s', Some t) \<Rightarrow> (s', 200, Doc t))"

subsection \<open>DELETE /:id\<close>

definition router_delete :: "store \<Rightarrow> string \<Rightarrow> store \<times> response" where
  "router_delete s id_param =
     (case Task_findOneAndDelete s (parseInt id_param) of
        Inl error \<Rightarrow> (s, 500, ErrorMessage error)
      | Inr (s', None) \<Rightarrow> (s', 404, Message notFound)
      | Inr (s', Some t) \<Rightarrow> (s', 200, Message deleted))"

subsection \<open>Sequences of requests\<close>

text \<open>
  A request to the router. \<open>Post\<close> carries the value of \<^verbatim>\<open>Date.now()\<close> at the moment the
  document is built. Requests are handled one after the other.
\<close>

datatype request =
    GetAll "qvalue option"
  | Get string
  | Post int body
  | Put string body
  | Delete string

fun handle :: "engine \<Rightarrow> store \<Rightarrow> request \<Rightarrow> store \<times> response" where
  "handle E s (GetAll q) = router_get_all s q"
| "handle E s (Get p) = router_get s p"
| "handle E s (Post now b) = router_post s now b"
| "handle E s (Put p b) = router_put E s p b"
| "handle E s (Delete p) = router_delete s p"

fun run :: "engine \<Rightarrow> store \<Rightarrow> request list \<Rightarrow> store \<times> response list" where
  "run E s [] = (s, [])"
| "run E s (r # rs) =
     (case handle E s r of
        (s1, out) \<Rightarrow> (case run E s1 rs of (s2, outs) \<Rightarrow> (s2, out # outs)))"

text \<open>The unique index on \<open>id\<close>: no two stored documents have the same \<open>id\<close>.\<close>

definition uniqueIndex :: "store \<Rightarrow> bool" where
  "uniqueIndex s = distinct (map id' (tasks s))"

text \<open>
  No stored \<open>id\<close> is above the counter. The sequence keeps it so; a PUT whose body
  names \<open>id\<close> can break it.
\<close>

definition idsBelowSeq :: "store \<Rightarrow> bool" where
  "idsBelowSeq s = (\<forall>t \<in> set (tasks s). \<forall>i. id' t = Some i \<longrightarrow> i \<le> seq s)"

fun namesId :: "request \<Rightarrow> bool" where
  "namesId (Put p b) = (b ''id'' \<noteq> None)"
| "namesId _ = False"

section \<open>Sample data\<close>

text \<open>
  The store and the requests at which the theorems below are evaluated. \<open>noStrings\<close>
  is an engine for bodies that give no string to the paths \<open>id\<close> and
  \<open>creationDate\<close>, where the engine is not asked.
\<close>

definition noStrings :: engine where
  "noStrings = \<lparr>stringToNumber = (\<lambda>s. None), dateParse = (\<lambda>s. None)\<rparr>"

definition milk :: task where
  "milk = \<lparr>title = ''Buy milk'', status = Some False, description = ''2%'',
           creationDate = Some 1000, id' = Some 1\<rparr>"

definition bread :: task where
  "bread = \<lparr>title = ''Buy bread'', status = Some True, description = ''rye'',
            creationDate = Some 2000, id' = Some 2\<rparr>"

definition pantry :: store where
  "pantry = \<lparr>tasks = [milk, bread], seq = 2\<rparr>"

definition groceries :: body where
  "groceries = [''title'' \<mapsto> JStr ''Buy milk'', ''description'' \<mapsto> JStr ''2%'']"

text \<open>Create a task, give it the id 2 by a PUT, delete it, and create again.\<close>

definition reuse :: "request list" where
  "reuse =
     [Post 1000 groceries, Put ''1'' [''id'' \<mapsto> JNum 2], Delete ''2'', Post 2000 groceries]"

text \<open>Create a task, give it the id 2 by a PUT, and create again.\<close>

definition clash :: "request list" where
  "clash = [Post 1000 groceries, Put ''1'' [''id'' \<mapsto> JNum 2], Post 2000 groceries]"

section \<open>Numerals and \<open>parseInt\<close>\<close>

text \<open>
  \<open>mathInt\<close> reads back the numeral that \<open>numberToString\<close> prints, and so does
  \<open>parseInt\<close> up to 2^53: the id of a response, written into a path, addresses the
  same id.
\<close>

lemma digitValue_decimal:
  "digitValue c < 10 \<longleftrightarrow> 48 \<le> (of_char c :: nat) \<and> (of_char c :: nat) \<le> 57"
  by (auto simp: digitValue_def Let_def)

lemma digitValue_digitChar: "d < 10 \<Longrightarrow> digitValue (digitChar d) = d"
  by (simp add: digitValue_def digitChar_def Let_def)

lemma decimal_not_special:
  assumes "digitValue c < 10"
  shows "c \<noteq> CHR ''-''" "c \<noteq> CHR ''+''" "c \<noteq> CHR ''x''" "c \<noteq> CHR ''X''"
  using assms by (auto simp: digitValue_decimal)

lemma whiteSpaceLength_other:
  assumes "(of_char c :: nat) < 128" and "(of_char c :: nat) \<notin> {9, 10, 11, 12, 13, 32}"
  shows "whiteSpaceLength (c # cs) = 0"
proof -
  have "take 3 (c # cs) = c # take 2 cs" by (simp add: take_Cons')
  then show ?thesis
    using assms unfolding whiteSpaceLength_def Let_def
    by (cases cs; cases "tl cs") auto
qed

lemma trimStart_id: "whiteSpaceLength s = 0 \<Longrightarrow> trimStart s = s"
  by (subst trimStart.simps) simp

lemma trimStart_decimal: "digitValue (hd Z) < 10 \<Longrightarrow> Z \<noteq> [] \<Longrightarrow> trimStart Z = Z"
  by (cases Z) (auto simp: digitValue_decimal intro!: trimStart_id whiteSpaceLength_other)

lemma trimStart_minus: "trimStart (CHR ''-'' # Z) = CHR ''-'' # Z"
  by (rule trimStart_id, rule whiteSpaceLength_other) simp_all

lemma natToString_digits: "c \<in> set (natToString n) \<Longrightarrow> digitValue c < 10"
proof (induction n arbitrary: c rule: natToString.induct)
  case (1 n)
  show ?case
  proof (cases "n < 10")
    case True
    with "1.prems" show ?thesis
      by (simp add: natToString.simps [of n] digitValue_digitChar)
  next
    case False
    with "1.prems" "1.IH" show ?thesis
      by (auto simp: natToString.simps [of n] digitValue_digitChar)
  qed
qed

lemma natToString_nonempty: "natToString n \<noteq> []"
  by (subst natToString.simps) simp

lemma radixValue_snoc:
  "radixValue R (Z @ [c]) = radixValue R Z * int R + int (digitValue c)"
  by (simp add: radixValue_def)

lemma radixValue_natToString: "radixValue 10 (natToString n) = int n"
proof (induction n rule: natToString.induct)
  case (1 n)
  show ?case
  proof (cases "n < 10")
    case True
    then show ?thesis
      by (simp add: natToString.simps [of n] radixValue_def digitValue_digitChar)
  next
    case False
    with "1.IH" have "radixValue 10 (natToString n) = int (n div 10) * 10 + int (n mod 10)"
      by (simp add: natToString.simps [of n] radixValue_snoc digitValue_digitChar)
    also have "\<dots> = int n" by (simp add: zdiv_int zmod_int)
    finally show ?thesis .
  qed
qed

lemma mathInt_decimal:
  assumes "Z \<noteq> []" and "\<forall>c \<in> set Z. digitValue c < 10"
  shows "mathInt Z = Some (radixValue 10 Z)"
    and "mathInt (CHR ''-'' # Z) = Some (- radixValue 10 Z)"
proof -
  have c0: "digitValue (hd Z) < 10" using assms by simp
  have nothex:
    "(case Z of c0 # c1 # _ \<Rightarrow> c0 = CHR ''0'' \<and> (c1 = CHR ''x'' \<or> c1 = CHR ''X'')
      | _ \<Rightarrow> False) = False"
    using assms(2) decimal_not_special(3,4) by (auto split: list.splits)
  have tw: "takeWhile (\<lambda>c. digitValue c < 10) Z = Z"
    using assms(2) by (simp add: takeWhile_eq_all_conv)
  have dw: "trimStart Z = Z"
    using trimStart_decimal [OF c0 assms(1)] .
  have sg: "hd Z \<noteq> CHR ''-''" "hd Z \<noteq> CHR ''+''"
    using decimal_not_special(1,2) [OF c0] by auto
  show "mathInt Z = Some (radixValue 10 Z)"
    unfolding mathInt_def dw Let_def
    by (simp only: sg nothex tw assms(1) simp_thms if_False if_True mult_1)
  show "mathInt (CHR ''-'' # Z) = Some (- radixValue 10 Z)"
    unfolding mathInt_def trimStart_minus Let_def
    by (simp only: list.sel nothex tw assms(1) simp_thms if_False if_True list.distinct) simp
qed

lemma mathInt_numberToString: "mathInt (numberToString n) = Some n"
proof (cases "n < 0")
  case True
  then show ?thesis
    using mathInt_decimal(2) [OF natToString_nonempty, of "nat (- n)"] natToString_digits
    by (simp add: numberToString_def radixValue_natToString)
next
  case False
  then show ?thesis
    using mathInt_decimal(1) [OF natToString_nonempty, of "nat n"] natToString_digits
    by (simp add: numberToString_def radixValue_natToString)
qed

lemma roundToDouble_small: "\<bar>n\<bar> \<le> 2 ^ 53 \<Longrightarrow> roundToDouble n = n"
  by (simp add: roundToDouble_def)

lemma parseInt_numberToString: "\<bar>n\<bar> \<le> 2 ^ 53 \<Longrightarrow> parseInt (numberToString n) = Some n"
  by (simp add: parseInt_def mathInt_numberToString roundToDouble_def)

lemma numberToString_nonempty: "numberToString n \<noteq> []"
  by (simp add: numberToString_def natToString_nonempty)

lemma numberToString_inj: "numberToString m = numberToString n \<Longrightarrow> m = n"
  by (metis mathInt_numberToString option.inject)

lemma numberToString_0: "numberToString 0 = ''0''"
  by code_simp

lemma numberToString_1: "numberToString 1 = ''1''"
  by code_simp

lemma mathInt_true: "mathInt ''true'' = None"
  by code_simp

lemma mathInt_false: "mathInt ''false'' = None"
  by code_simp

lemma numberToString_eq_0: "numberToString n = ''0'' \<longleftrightarrow> n = 0"
  using numberToString_inj [of n 0] by (auto simp: numberToString_0)

lemma numberToString_eq_1: "numberToString n = ''1'' \<longleftrightarrow> n = 1"
  using numberToString_inj [of n 1] by (auto simp: numberToString_1)

lemma numberToString_not_true: "numberToString n \<noteq> ''true''"
  using mathInt_numberToString [of n] mathInt_true by auto

lemma numberToString_not_false: "numberToString n \<noteq> ''false''"
  using mathInt_numberToString [of n] mathInt_false by auto

section \<open>Sample paths\<close>



lemma parseInt_1: "parseInt ''1'' = Some 1"
  by code_simp

lemma parseInt_2: "parseInt ''2'' = Some 2"
  by code_simp

lemma parseInt_999: "parseInt ''999'' = Some 999"
  by code_simp

section \<open>The validators of POST\<close>

text \<open>
  The entries of the validation result, chain by chain, and what the two validators
  accept among the values that are not arrays.
\<close>

lemma validationResult_unfold:
  "validationResult b =
     map (\<lambda>x. \<lparr>param = ''title'', msg = titleMsg, val = x\<rparr>)
       (filter (\<lambda>x. toString x = []) (elements (b ''title''))) @
     map (\<lambda>x. \<lparr>param = ''description'', msg = descriptionMsg, val = x\<rparr>)
       (filter (\<lambda>x. toString x = []) (elements (b ''description''))) @
     (if b ''status'' = None then []
      else map (\<lambda>x. \<lparr>param = ''status'', msg = statusMsg, val = x\<rparr>)
             (filter (\<lambda>x. toString x \<notin> set [''true'', ''false'', ''1'', ''0''])
                (elements (b ''status''))))"
  by (simp add: validationResult_def chains_def runChain_def notEmpty_def isBoolean_def)

lemma elements_scalar: "(\<And>xs. v \<noteq> Some (JArr xs)) \<Longrightarrow> elements v = [v]"
  by (auto simp: elements_def split: option.splits json.splits)

lemma toString_empty_scalar:
  "(\<And>xs. v \<noteq> Some (JArr xs)) \<Longrightarrow>
   toString v = [] \<longleftrightarrow> v \<in> {None, Some JNull, Some (JStr [])}"
proof (cases v)
  case None
  then show ?thesis by simp
next
  case (Some j)
  assume "\<And>xs. v \<noteq> Some (JArr xs)"
  with Some show ?thesis
    by (cases j) (auto simp: numberToString_nonempty)
qed

lemma toString_boolean_scalar:
  "toString (Some j) \<in> set [''true'', ''false'', ''1'', ''0''] \<longleftrightarrow>
     j \<in> {JBool True, JBool False, JNum 1, JNum 0,
          JStr ''true'', JStr ''false'', JStr ''1'', JStr ''0''}"
  if "\<And>xs. j \<noteq> JArr xs" and "\<And>n. j = JNum n \<Longrightarrow> \<bar>n\<bar> \<le> 2 ^ 53"
  using that
  by (cases j)
     (auto simp: numberToString_eq_0 numberToString_eq_1 roundToDouble_small
        numberToString_not_true numberToString_not_false)

lemma new_Task_strings:
  "t \<noteq> [] \<Longrightarrow> d \<noteq> [] \<Longrightarrow>
   new_Task now (Some (JStr t)) (map_option JBool st) (Some (JStr d)) =
     Inr \<lparr>title = t, status = Some (case st of None \<Rightarrow> False | Some x \<Rightarrow> x),
          description = d, creationDate = Some now, id' = None\<rparr>"
  by (cases st) (auto simp: new_Task_def castBoolean_def convertToTrue_def convertToFalse_def)

section \<open>Finding, removing and replacing a document\<close>

lemma find_matches_None: "Some n \<notin> set (map id' ts) \<Longrightarrow> find (matches n) ts = None"
  by (induction ts) (auto simp: matches_def)

lemma find_matches_Some:
  "find (matches n) ts = Some t \<Longrightarrow> t \<in> set ts \<and> id' t = Some n"
  by (induction ts) (auto simp: matches_def split: if_splits)

lemma find_matches_exists:
  "Some n \<in> set (map id' ts) \<Longrightarrow> \<exists>t. find (matches n) ts = Some t"
  by (induction ts) (auto simp: matches_def)

lemma removeFirst_unique:
  "distinct (map id' ts) \<Longrightarrow>
   removeFirst (matches n) ts = filter (\<lambda>t. id' t \<noteq> Some n) ts"
proof (induction ts)
  case Nil
  then show ?case by simp
next
  case (Cons t ts)
  show ?case
  proof (cases "matches n t")
    case True
    then have "Some n \<notin> set (map id' ts)"
      using Cons.prems by (auto simp: matches_def)
    then have "filter (\<lambda>t. id' t \<noteq> Some n) ts = ts"
      by (force simp: filter_id_conv)
    with True show ?thesis by (simp add: matches_def)
  next
    case False
    with Cons show ?thesis by (simp add: matches_def)
  qed
qed

lemma removeFirst_ids:
  "distinct (map id' ts) \<Longrightarrow> distinct (map id' (removeFirst (matches n) ts))"
  by (simp add: removeFirst_unique distinct_map_filter)

lemma replaceFirst_ids:
  "find (matches n) ts = Some t \<Longrightarrow>
   set (map id' (replaceFirst (matches n) t' ts)) \<subseteq> insert (id' t') (set (map id' ts))"
  by (induction ts) (auto split: if_splits)

lemma replaceFirst_distinct:
  assumes "distinct (map id' ts)" and "find (matches n) ts = Some t"
    and "id' t' = id' t \<or> id' t' \<notin> set (map id' ts)"
  shows "distinct (map id' (replaceFirst (matches n) t' ts))"
  using assms
proof (induction ts)
  case Nil
  then show ?case by simp
next
  case (Cons x xs)
  show ?case
  proof (cases "matches n x")
    case True
    with Cons.prems have "x = t" by simp
    with True Cons.prems show ?thesis by auto
  next
    case False
    with Cons.prems have f: "find (matches n) xs = Some t" by simp
    have t: "id' t \<in> set (map id' xs)"
      using find_matches_Some [OF f] by (metis image_eqI set_map)
    have d: "distinct (map id' (replaceFirst (matches n) t' xs))"
      using Cons.IH [OF _ f] Cons.prems by auto
    have "id' x \<noteq> id' t'"
      using Cons.prems t by auto
    then have "id' x \<notin> set (map id' (replaceFirst (matches n) t' xs))"
      using replaceFirst_ids [OF f, of t'] Cons.prems(1) by auto
    with False d show ?thesis by simp
  qed
qed

lemma find_matches_append_new:
  "Some n \<notin> set (map id' ts) \<Longrightarrow> id' t = Some n \<Longrightarrow> find (matches n) (ts @ [t]) = Some t"
  by (induction ts) (auto simp: matches_def)

lemma removeFirst_subset: "set (removeFirst P xs) \<subseteq> set xs"
  by (induction xs) auto

lemma replaceFirst_subset: "set (replaceFirst P y xs) \<subseteq> insert y (set xs)"
  by (induction xs) auto

section \<open>What every request keeps\<close>

text \<open>
  Only a POST that reaches \<^verbatim>\<open>save()\<close> moves the counter, by one. The unique index
  holds in every store that the requests reach from the empty one. The ids stay
  below the counter as long as no PUT names \<open>id\<close>; then the next id of the sequence
  is free. A PUT leaves the fields that its body does not name.
\<close>

lemma Task_save_cases:
  "Task_save s now ti si di = (s, Inl ValidationError)
   \<or> Task_save s now ti si di = (s\<lparr>seq := seq s + 1\<rparr>, Inl DuplicateKey)
   \<or> (\<exists>t. id' t = Some (seq s + 1) \<and> Some (seq s + 1) \<notin> set (map id' (tasks s)) \<and>
          Task_save s now ti si di =
            (s\<lparr>seq := seq s + 1, tasks := tasks s @ [t]\<rparr>, Inr t))"
proof (cases "new_Task now ti si di")
  case (Inl e)
  then have "e = ValidationError"
    by (auto simp: new_Task_def split: sum.splits option.splits if_splits prod.splits)
  with Inl show ?thesis by (simp add: Task_save_def)
next
  case (Inr t0)
  then show ?thesis
    by (cases "Some (seq s + 1) \<in> set (map id' (tasks s))")
       (simp_all add: Task_save_def Let_def)
qed

lemma router_post_cases:
  "(\<exists>code body. router_post s now b = (s, code, body) \<and> code \<noteq> 201)
   \<or> (\<exists>body. router_post s now b = (s\<lparr>seq := seq s + 1\<rparr>, 500, body))
   \<or> (\<exists>t. id' t = Some (seq s + 1) \<and> Some (seq s + 1) \<notin> set (map id' (tasks s)) \<and>
          router_post s now b = (s\<lparr>seq := seq s + 1, tasks := tasks s @ [t]\<rparr>, 201, Doc t))"
proof (cases "validationResult b = []")
  case False
  then show ?thesis by (simp add: router_post_def)
next
  case True
  then show ?thesis
    using Task_save_cases [of s now "b ''title''" "b ''status''" "b ''description''"]
    by (auto simp: router_post_def)
qed

lemma Task_findOneAndUpdate_seq:
  "Task_findOneAndUpdate E s q b = Inr (s', r) \<Longrightarrow> seq s' = seq s"
  by (auto simp: Task_findOneAndUpdate_def Let_def split: sum.splits option.splits if_splits)

lemma Task_findOneAndDelete_seq:
  "Task_findOneAndDelete s q = Inr (s', r) \<Longrightarrow> seq s' = seq s"
  by (auto simp: Task_findOneAndDelete_def split: sum.splits option.splits if_splits)

lemma Task_findOneAndDelete_unique:
  assumes "Task_findOneAndDelete s q = Inr (s', r)" and "uniqueIndex s"
  shows "uniqueIndex s'"
  using assms removeFirst_ids [of "tasks s"]
  by (auto simp: Task_findOneAndDelete_def uniqueIndex_def split: sum.splits option.splits)

lemma Task_findOneAndUpdate_unique:
  assumes "Task_findOneAndUpdate E s q b = Inr (s', r)" and "uniqueIndex s"
  shows "uniqueIndex s'"
proof -
  from assms(1) obtain n u where n: "castFilter q = Inr n" and u: "castUpdate E b = Inr u"
    by (auto simp: Task_findOneAndUpdate_def split: sum.splits)
  show ?thesis
  proof (cases "find (matches n) (tasks s)")
    case None
    with assms n u show ?thesis
      by (auto simp: Task_findOneAndUpdate_def split: if_splits)
  next
    case (Some t)
    with assms(1) n u
    have ok: "id' (applySet u t) = id' t \<or> id' (applySet u t) \<notin> set (map id' (tasks s))"
      and s': "s' = s\<lparr>tasks := replaceFirst (matches n) (applySet u t) (tasks s)\<rparr>"
      by (auto simp: Task_findOneAndUpdate_def Let_def split: if_splits)
    from replaceFirst_distinct [OF _ Some ok] assms(2) show ?thesis
      by (simp add: s' uniqueIndex_def)
  qed
qed

lemma uniqueIndex_handle:
  assumes "handle E s r = (s', out)" and "uniqueIndex s"
  shows "uniqueIndex s'"
proof (cases r)
  case (GetAll q)
  with assms show ?thesis by (auto simp: router_get_all_def split: option.splits)
next
  case (Get p)
  with assms show ?thesis by (auto simp: router_get_def split: sum.splits option.splits)
next
  case (Post now b)
  with assms show ?thesis
    using router_post_cases [of s now b] by (auto simp: uniqueIndex_def)
next
  case (Put p b)
  with assms show ?thesis
    by (auto simp: router_put_def split: sum.splits option.splits prod.splits
        dest: Task_findOneAndUpdate_unique)
next
  case (Delete p)
  with assms show ?thesis
    by (auto simp: router_delete_def split: sum.splits option.splits prod.splits
        dest: Task_findOneAndDelete_unique)
qed

lemma uniqueIndex_run:
  "run E s rs = (s', outs) \<Longrightarrow> uniqueIndex s \<Longrightarrow> uniqueIndex s'"
proof (induction rs arbitrary: s s' outs)
  case Nil
  then show ?case by simp
next
  case (Cons r rs)
  obtain s1 out where h: "handle E s r = (s1, out)" by (cases "handle E s r")
  obtain s2 outs2 where r2: "run E s1 rs = (s2, outs2)" by (cases "run E s1 rs")
  from Cons.prems(1) h r2 have "s' = s2" by simp
  with Cons.IH [OF r2 uniqueIndex_handle [OF h Cons.prems(2)]] show ?case by simp
qed

lemma uniqueIndex_emptyStore: "uniqueIndex emptyStore"
  by (simp add: uniqueIndex_def emptyStore_def)

lemma idsBelowSeq_next:
  assumes "idsBelowSeq s"
  shows "Some (seq s + 1) \<notin> set (map id' (tasks s))"
proof
  assume "Some (seq s + 1) \<in> set (map id' (tasks s))"
  then obtain t where "t \<in> set (tasks s)" "id' t = Some (seq s + 1)" by auto
  with assms have "seq s + 1 \<le> seq s" unfolding idsBelowSeq_def by blast
  then show False by simp
qed

lemma castUpdate_no_id: "castUpdate E b = Inr u \<Longrightarrow> b ''id'' = None \<Longrightarrow> setId u = None"
  by (auto simp: castUpdate_def split: sum.splits)

lemma Task_findOneAndDelete_tasks:
  assumes "Task_findOneAndDelete s q = Inr (s', r)"
  shows "set (tasks s') \<subseteq> set (tasks s)"
proof -
  from assms obtain n where n: "castFilter q = Inr n"
    by (auto simp: Task_findOneAndDelete_def split: sum.splits)
  show ?thesis
  proof (cases "find (matches n) (tasks s)")
    case None
    with assms n show ?thesis by (simp add: Task_findOneAndDelete_def)
  next
    case (Some t)
    with assms n have "tasks s' = removeFirst (matches n) (tasks s)"
      by (auto simp: Task_findOneAndDelete_def)
    then show ?thesis by (simp add: removeFirst_subset)
  qed
qed

lemma idsBelowSeq_handle:
  assumes "handle E s r = (s', out)" and "idsBelowSeq s" and "\<not> namesId r"
  shows "idsBelowSeq s'"
proof (cases r)
  case (GetAll q)
  with assms show ?thesis by (auto simp: router_get_all_def split: option.splits)
next
  case (Get p)
  with assms show ?thesis by (auto simp: router_get_def split: sum.splits option.splits)
next
  case (Post now b)
  with assms show ?thesis
    using router_post_cases [of s now b] by (fastforce simp: idsBelowSeq_def)
next
  case (Delete p)
  with assms have "seq s' = seq s" "set (tasks s') \<subseteq> set (tasks s)"
    by (auto simp: router_delete_def split: sum.splits option.splits prod.splits
        dest: Task_findOneAndDelete_seq Task_findOneAndDelete_tasks)
  with assms(2) show ?thesis by (auto simp: idsBelowSeq_def)
next
  case (Put p b)
  with assms(3) have noid: "b ''id'' = None" by simp
  show ?thesis
  proof (cases "Task_findOneAndUpdate E s (parseInt p) b")
    case (Inl e)
    with Put assms show ?thesis by (simp add: router_put_def)
  next
    case (Inr sr)
    then obtain n u where n: "castFilter (parseInt p) = Inr n" and u: "castUpdate E b = Inr u"
      by (auto simp: Task_findOneAndUpdate_def split: sum.splits)
    show ?thesis
    proof (cases "find (matches n) (tasks s)")
      case None
      with Inr n u Put assms show ?thesis
        by (auto simp: router_put_def Task_findOneAndUpdate_def split: if_splits)
    next
      case (Some t)
      let ?t' = "applySet u t"
      from Some Inr n u Put assms(1)
      have s': "s' = s\<lparr>tasks := replaceFirst (matches n) ?t' (tasks s)\<rparr>"
        by (auto simp: router_put_def Task_findOneAndUpdate_def Let_def split: if_splits)
      have "id' ?t' = id' t"
        using castUpdate_no_id [OF u noid] by (simp add: applySet_def)
      moreover have "t \<in> set (tasks s)"
        using find_matches_Some [OF Some] by simp
      ultimately have "\<forall>i. id' ?t' = Some i \<longrightarrow> i \<le> seq s"
        using assms(2) by (auto simp: idsBelowSeq_def)
      then show ?thesis
        using assms(2) replaceFirst_subset [of "matches n" ?t' "tasks s"]
        unfolding s' idsBelowSeq_def by auto
    qed
  qed
qed

lemma idsBelowSeq_run:
  "run E s rs = (s', outs) \<Longrightarrow> idsBelowSeq s \<Longrightarrow> \<forall>r \<in> set rs. \<not> namesId r \<Longrightarrow> idsBelowSeq s'"
proof (induction rs arbitrary: s s' outs)
  case Nil
  then show ?case by simp
next
  case (Cons r rs)
  obtain s1 out where h: "handle E s r = (s1, out)" by (cases "handle E s r")
  obtain s2 outs2 where r2: "run E s1 rs = (s2, outs2)" by (cases "run E s1 rs")
  from Cons.prems(1) h r2 have "s' = s2" by simp
  moreover have "idsBelowSeq s1"
    using idsBelowSeq_handle [OF h Cons.prems(2)] Cons.prems(3) by simp
  ultimately show ?case
    using Cons.IH [OF r2] Cons.prems(3) by simp
qed

lemma idsBelowSeq_emptyStore: "idsBelowSeq emptyStore"
  by (simp add: idsBelowSeq_def emptyStore_def)

lemma put_keeps_unnamed:
  assumes "parseInt p = Some n" and "find (matches n) (tasks s) = Some t"
    and "router_put E s p b = (s', 200, Doc t')"
  shows "(b ''title'' = None \<longrightarrow> title t' = title t)
       \<and> (b ''status'' = None \<longrightarrow> status t' = status t)
       \<and> (b ''description'' = None \<longrightarrow> description t' = description t)
       \<and> (b ''creationDate'' = None \<longrightarrow> creationDate t' = creationDate t)
       \<and> (b ''id'' = None \<longrightarrow> id' t' = id' t)"
proof -
  from assms obtain u where u: "castUpdate E b = Inr u" and t': "t' = applySet u t"
    by (auto simp: router_put_def Task_findOneAndUpdate_def Let_def
        split: sum.splits if_splits)
  from u have
    "b ''title'' = None \<longrightarrow> setTitle u = None"
    "b ''status'' = None \<longrightarrow> setStatus u = None"
    "b ''description'' = None \<longrightarrow> setDescription u = None"
    "b ''creationDate'' = None \<longrightarrow> setCreationDate u = None"
    "b ''id'' = None \<longrightarrow> setId u = None"
    by (auto simp: castUpdate_def split: sum.splits)
  then show ?thesis
    by (simp add: t' applySet_def)
qed

text \<open>
  A create on a store where the next id of the sequence is free: the answer is 201
  with the submitted title and description, the submitted status or \<open>false\<close>, the
  next value of the counter as id and the time of the request as creationDate, the
  task is stored, and a GET of a path that reads as that id answers the same task.
\<close>

lemma post_creates:
  assumes "b ''title'' = Some (JStr t)" and "t \<noteq> []"
    and "b ''description'' = Some (JStr d)" and "d \<noteq> []"
    and "b ''status'' = map_option JBool st"
    and "Some (seq s + 1) \<notin> set (map id' (tasks s))"
    and "new = \<lparr>title = t, status = Some (case st of None \<Rightarrow> False | Some x \<Rightarrow> x),
                description = d, creationDate = Some now, id' = Some (seq s + 1)\<rparr>"
    and "s' = s\<lparr>seq := seq s + 1, tasks := tasks s @ [new]\<rparr>"
    and "parseInt p = Some (seq s + 1)"
  shows "router_post s now b = (s', 201, Doc new) \<and> router_get s' p = (s', 200, Doc new)"
proof -
  have el: "elements (b ''status'') = [b ''status'']"
    unfolding assms(5) by (cases st) (simp_all add: elements_def)
  have ok: "b ''status'' = None \<or>
      toString (b ''status'') \<in> set [''true'', ''false'', ''1'', ''0'']"
    unfolding assms(5) by (cases st) auto
  have "validationResult b = []"
    unfolding validationResult_unfold el using assms(1-4) ok
    by (auto simp: elements_def)
  moreover have "Task_save s now (b ''title'') (b ''status'') (b ''description'') = (s', Inr new)"
    unfolding assms(1,3,5,7,8) Task_save_def new_Task_strings [OF assms(2,4)]
    using assms(6) by (simp add: Let_def)
  ultimately have post: "router_post s now b = (s', 201, Doc new)"
    by (simp add: router_post_def)
  have "find (matches (seq s + 1)) (tasks s') = Some new"
    using find_matches_append_new [OF assms(6), of new] by (simp add: assms(7,8))
  then have "router_get s' p = (s', 200, Doc new)"
    by (simp add: router_get_def Task_findOne_def assms(9))
  with post show ?thesis by simp
qed

text \<open>An empty array as status passes the validators and fails the cast of the model.\<close>

lemma post_empty_array_status:
  "router_post pantry 3000 (groceries(''status'' \<mapsto> JArr [])) =
     (pantry, 500, ErrorMessage ValidationError)"
  by (simp add: router_post_def validationResult_unfold elements_def groceries_def
      Task_save_def new_Task_def castBoolean_def convertToTrue_def convertToFalse_def)

section \<open>The claims\<close>

text \<open>
  C1. GET /tasks with a query parameter \<open>status\<close> answers exactly the tasks whose
  stored status is the boolean \<open>status = "true"\<close>: any value other than the string
  \<open>"true"\<close> selects the tasks whose status is false. Without the parameter it answers
  all tasks.
\<close>

theorem status_filter:
  "router_get_all s (Some v) =
     (s, 200, Docs (filter (\<lambda>t. status t = Some (v = QStr ''true'')) (tasks s)))
   \<and> (v \<noteq> QStr ''true'' \<longrightarrow>
        router_get_all s (Some v) = (s, 200, Docs (filter (\<lambda>t. status t = Some False) (tasks s))))
   \<and> router_get_all s None = (s, 200, Docs (tasks s))"
  by (simp add: router_get_all_def)

theorem status_filter_witness:
  "router_get_all pantry (Some (QStr ''foo'')) = (pantry, 200, Docs [milk])
   \<and> router_get_all pantry (Some (QStr ''true'')) = (pantry, 200, Docs [bread])
   \<and> router_get_all pantry None = (pantry, 200, Docs [milk, bread])"
  using status_filter [of pantry "QStr ''foo''"] status_filter [of pantry "QStr ''true''"]
  by (simp add: pantry_def milk_def bread_def)

text \<open>
  C2 fails on the code, by the defect of C3. A PUT that names \<open>id\<close> gives the task
  with id 1 the id 2, ahead of the counter; the task is deleted; the next create
  takes the counter to 2 and assigns the id 2 again, the id of the deleted task. So
  an id is reused after a delete, and the id of a create is not above every id that
  a task had before.
\<close>

theorem id_reused_after_delete:
  "run noStrings emptyStore reuse =
     (\<lparr>tasks = [milk\<lparr>creationDate := Some 2000, id' := Some 2\<rparr>], seq = 2\<rparr>,
      [(201, Doc milk),
       (200, Doc (milk\<lparr>id' := Some 2\<rparr>)),
       (200, Message deleted),
       (201, Doc (milk\<lparr>creationDate := Some 2000, id' := Some 2\<rparr>))])"
  by code_simp

text \<open>
  C3 fails on the code. The body of a PUT goes to \<^verbatim>\<open>findOneAndUpdate\<close> as it is, so
  that a body that names \<open>id\<close> and \<open>creationDate\<close> overwrites both: here the task
  with id 1 leaves the request with id 7 and creationDate 0. (The fields that a body
  does not name keep their values: \<open>put_keeps_unnamed\<close>.)
\<close>

theorem put_overwrites_id:
  "router_put noStrings pantry ''1'' [''id'' \<mapsto> JNum 7, ''creationDate'' \<mapsto> JNum 0] =
     (\<lparr>tasks = [milk\<lparr>creationDate := Some 0, id' := Some 7\<rparr>, bread], seq = 2\<rparr>, 200,
      Doc (milk\<lparr>creationDate := Some 0, id' := Some 7\<rparr>))"
  by (simp add: router_put_def Task_findOneAndUpdate_def parseInt_1 castUpdate_def
      updateValidators_def newDate_def applySet_def matches_def Let_def
      roundToDouble_small pantry_def milk_def bread_def)

text \<open>
  C4, as the claim states it, fails: a status that is present and is the string
  \<open>"true"\<close>, not a boolean, passes \<open>isBoolean()\<close>, and the task is created.
\<close>

theorem post_string_status_counterexample:
  "router_post emptyStore 1000
     [''title'' \<mapsto> JStr ''Buy milk'', ''description'' \<mapsto> JStr ''2%'',
      ''status'' \<mapsto> JStr ''true'']
   = (\<lparr>tasks = [milk\<lparr>status := Some True\<rparr>], seq = 1\<rparr>, 201,
      Doc (milk\<lparr>status := Some True\<rparr>))"
  by (simp add: router_post_def validationResult_unfold elements_def Task_save_def
      new_Task_def castBoolean_def convertToTrue_def emptyStore_def milk_def Let_def)

text \<open>
  C4, amended. The validators test the string form of a value, and of each element
  when the value is an array. A POST in which the string form of the title (of an
  element of it) is empty, as it is for a missing title, \<open>null\<close> and the empty string,
  or that of the description is empty, or in which the status is present and the
  string form of it (of an element of it) is none of \<open>true\<close>, \<open>false\<close>, \<open>1\<close>, \<open>0\<close>, is
  answered with 400 and the list of errors: one entry for each failing value, in the
  order of the rules, so one entry per violated rule when no value is an array. The
  store is unchanged.
\<close>

theorem post_rejects_invalid:
  assumes "(\<exists>x \<in> set (elements (b ''title'')). toString x = [])
         \<or> (\<exists>x \<in> set (elements (b ''description'')). toString x = [])
         \<or> (b ''status'' \<noteq> None \<and>
             (\<exists>x \<in> set (elements (b ''status'')).
                toString x \<notin> {''true'', ''false'', ''1'', ''0''}))"
  shows "\<exists>errors. router_post s now b = (s, 400, Errors errors) \<and> errors \<noteq> [] \<and>
           map param errors =
             replicate (length (filter (\<lambda>x. toString x = []) (elements (b ''title''))))
               ''title'' @
             replicate (length (filter (\<lambda>x. toString x = []) (elements (b ''description''))))
               ''description'' @
             (if b ''status'' = None then []
              else replicate
                     (length (filter (\<lambda>x. toString x \<notin> {''true'', ''false'', ''1'', ''0''})
                                (elements (b ''status''))))
                     ''status'')"
proof -
  let ?T = "filter (\<lambda>x. toString x = []) (elements (b ''title''))"
  let ?D = "filter (\<lambda>x. toString x = []) (elements (b ''description''))"
  let ?S = "filter (\<lambda>x. toString x \<notin> {''true'', ''false'', ''1'', ''0''})
              (elements (b ''status''))"
  let ?errors = "validationResult b"
  have params: "map param ?errors =
      replicate (length ?T) ''title'' @ replicate (length ?D) ''description'' @
      (if b ''status'' = None then [] else replicate (length ?S) ''status'')"
    unfolding validationResult_unfold by (simp add: map_replicate_const comp_def)
  have "?T \<noteq> [] \<or> ?D \<noteq> [] \<or> (b ''status'' \<noteq> None \<and> ?S \<noteq> [])"
    using assms by (simp only: filter_empty_conv) blast
  then have "map param ?errors \<noteq> []"
    unfolding params by auto
  then have ne: "?errors \<noteq> []" by auto
  then have "router_post s now b = (s, 400, Errors ?errors)"
    by (simp add: router_post_def)
  with ne params show ?thesis by blast
qed

theorem post_rejects_invalid_witness:
  "\<exists>errors.
     router_post pantry 3000
       [''title'' \<mapsto> JStr [], ''status'' \<mapsto> JArr [JStr ''done'', JBool True, JNum 2]] =
       (pantry, 400, Errors errors) \<and>
     map param errors = [''title'', ''description'', ''status'', ''status'']"
proof -
  have two: "numberToString (roundToDouble 2) = ''2''" by code_simp
  show ?thesis
    using post_rejects_invalid
      [of "[''title'' \<mapsto> JStr [],
            ''status'' \<mapsto> JArr [JStr ''done'', JBool True, JNum 2]]" pantry 3000]
    by (auto simp: elements_def two)
qed

text \<open>
  C5, as the claim states it, fails: a PUT that sets the title of an existing task to
  the empty string is refused by the update validators, and the error reaches the
  \<^verbatim>\<open>catch\<close> of the route, which answers 500, not 400.
\<close>

theorem put_empty_title_counterexample:
  "find (matches 1) (tasks pantry) = Some milk
   \<and> router_put noStrings pantry ''1'' [''title'' \<mapsto> JStr []] =
       (pantry, 500, ErrorMessage ValidationError)"
  by (simp add: router_put_def Task_findOneAndUpdate_def parseInt_1 castUpdate_def
      updateValidators_def matches_def pantry_def milk_def)

text \<open>
  C5, amended. A PUT, of the id of an existing task as of any other path, whose body
  sets title or description to \<open>null\<close> or to the empty string, or sets status to a
  value that does not cast to Boolean, is answered with 500 and a message, and the
  store is unchanged.
\<close>

theorem put_invalid_500:
  assumes "b ''title'' \<in> {Some JNull, Some (JStr [])}
         \<or> b ''description'' \<in> {Some JNull, Some (JStr [])}
         \<or> (\<exists>j. b ''status'' = Some j \<and>
                 j \<notin> set convertToTrue \<and> j \<notin> set convertToFalse \<and> j \<noteq> JNull)"
  shows "\<exists>e. router_put E s p b = (s, 500, ErrorMessage e)"
proof (cases "castFilter (parseInt p)")
  case (Inl e)
  then show ?thesis
    by (simp add: router_put_def Task_findOneAndUpdate_def)
next
  case n: (Inr n)
  show ?thesis
  proof (cases "castUpdate E b")
    case (Inl e)
    with n show ?thesis
      by (simp add: router_put_def Task_findOneAndUpdate_def)
  next
    case (Inr u)
    then have st: "\<exists>x. castPath castBoolean (b ''status'') = Inr x"
      by (auto simp: castUpdate_def split: sum.splits)
    have "\<not> (\<exists>j. b ''status'' = Some j \<and>
                 j \<notin> set convertToTrue \<and> j \<notin> set convertToFalse \<and> j \<noteq> JNull)"
    proof
      assume "\<exists>j. b ''status'' = Some j \<and>
                 j \<notin> set convertToTrue \<and> j \<notin> set convertToFalse \<and> j \<noteq> JNull"
      then obtain j where "b ''status'' = Some j" "castBoolean j = Inl CastError"
        by (auto simp: castBoolean_def)
      with st show False by simp
    qed
    with assms have "b ''title'' \<in> {Some JNull, Some (JStr [])}
         \<or> b ''description'' \<in> {Some JNull, Some (JStr [])}" by blast
    moreover have "setTitle u = (case b ''title'' of None \<Rightarrow> None
        | Some j \<Rightarrow> (case castString j of Inr x \<Rightarrow> Some x | Inl e \<Rightarrow> None))"
      "setDescription u = (case b ''description'' of None \<Rightarrow> None
        | Some j \<Rightarrow> (case castString j of Inr x \<Rightarrow> Some x | Inl e \<Rightarrow> None))"
      using Inr by (auto simp: castUpdate_def split: sum.splits option.splits)
    ultimately have "\<not> updateValidators u"
      by (auto simp: updateValidators_def)
    with Inr n show ?thesis
      by (simp add: router_put_def Task_findOneAndUpdate_def)
  qed
qed

theorem put_invalid_500_witness:
  "\<exists>e. router_put noStrings pantry ''1'' [''status'' \<mapsto> JStr ''done''] =
     (pantry, 500, ErrorMessage e)"
  using put_invalid_500 [of "[''status'' \<mapsto> JStr ''done'']" noStrings pantry "''1''"]
  by (simp add: convertToTrue_def convertToFalse_def)

text \<open>
  C6 fails on the code, by the defect of C3. A PUT that names \<open>id\<close> gives the task
  with id 1 the id 2, the next value of the counter; the create that follows, with a
  title and a description that are not empty, takes the id 2, the unique index
  refuses the insert, and the answer is 500, not 201. (Where the next id is free the
  claim holds: \<open>post_creates\<close>.)
\<close>

theorem valid_post_refused:
  "run noStrings emptyStore clash =
     (\<lparr>tasks = [milk\<lparr>id' := Some 2\<rparr>], seq = 2\<rparr>,
      [(201, Doc milk),
       (200, Doc (milk\<lparr>id' := Some 2\<rparr>)),
       (500, ErrorMessage DuplicateKey)])"
  by code_simp

text \<open>
  C7, as the claim states it, fails for PUT: the update is cast and validated before
  the database is asked, so that a PUT of an id that no task has, with a body that
  the validators refuse, is answered with 500, not 404.
\<close>

theorem put_missing_counterexample:
  "parseInt ''999'' = Some 999 \<and> Some 999 \<notin> set (map id' (tasks pantry))
   \<and> router_put noStrings pantry ''999'' [''title'' \<mapsto> JStr []] =
       (pantry, 500, ErrorMessage ValidationError)"
  by (simp add: router_put_def Task_findOneAndUpdate_def parseInt_999 castUpdate_def
      updateValidators_def pantry_def milk_def bread_def)

text \<open>
  C7, amended. For an integer id that no stored task has, GET and DELETE are answered
  with 404 and a message. PUT is answered with 404 or with 500, each with a message;
  for a plain body it is 404 when the body casts to the schema and passes the update
  validators, and 500 otherwise. In every case the store is unchanged.
\<close>

theorem missing_id_404:
  assumes "parseInt p = Some n" and "Some n \<notin> set (map id' (tasks s))"
  shows "router_get s p = (s, 404, Message notFound)
       \<and> router_delete s p = (s, 404, Message notFound)
       \<and> (router_put E s p b = (s, 404, Message notFound)
          \<or> (\<exists>e. router_put E s p b = (s, 500, ErrorMessage e)))
       \<and> (plainBody b \<longrightarrow>
            router_put E s p b =
              (case castUpdate E b of
                 Inl e \<Rightarrow> (s, 500, ErrorMessage e)
               | Inr u \<Rightarrow>
                   if updateValidators u then (s, 404, Message notFound)
                   else (s, 500, ErrorMessage ValidationError)))"
proof -
  have put: "router_put E s p b =
              (case castUpdate E b of
                 Inl e \<Rightarrow> (s, 500, ErrorMessage e)
               | Inr u \<Rightarrow>
                   if updateValidators u then (s, 404, Message notFound)
                   else (s, 500, ErrorMessage ValidationError))"
    using find_matches_None [OF assms(2)]
    by (simp add: router_put_def Task_findOneAndUpdate_def assms(1) split: sum.splits)
  have "router_get s p = (s, 404, Message notFound)"
    and "router_delete s p = (s, 404, Message notFound)"
    using find_matches_None [OF assms(2)]
    by (simp_all add: router_get_def router_delete_def Task_findOne_def
        Task_findOneAndDelete_def assms(1))
  moreover have "router_put E s p b = (s, 404, Message notFound)
          \<or> (\<exists>e. router_put E s p b = (s, 500, ErrorMessage e))"
    unfolding put by (simp split: sum.splits)
  ultimately show ?thesis using put by simp
qed

theorem missing_id_404_witness:
  "router_get pantry ''999'' = (pantry, 404, Message notFound)
   \<and> router_delete pantry ''999'' = (pantry, 404, Message notFound)
   \<and> router_put noStrings pantry ''999'' [''status'' \<mapsto> JBool True] =
       (pantry, 404, Message notFound)"
proof -
  have m: "Some 999 \<notin> set (map id' (tasks pantry))"
    by (simp add: pantry_def milk_def bread_def)
  have c: "castUpdate noStrings [''status'' \<mapsto> JBool True] =
             Inr \<lparr>setTitle = None, setStatus = Some (Some True), setDescription = None,
                  setCreationDate = None, setId = None\<rparr>"
    by (simp add: castUpdate_def castBoolean_def convertToTrue_def)
  have pl: "plainBody [''status'' \<mapsto> JBool True]"
    by (simp add: plainBody_def)
  from missing_id_404 [OF parseInt_999 m, of noStrings "[''status'' \<mapsto> JBool True]"] pl
  show ?thesis
    by (simp add: c updateValidators_def)
qed

text \<open>
  C8. A DELETE of the id of a stored task is answered with 200 and the confirmation,
  the task is gone from the collection, and a GET of the same path on the resulting
  store is answered with 404. The store is one that the unique index on \<open>id\<close> allows.
\<close>

theorem delete_removes:
  assumes "uniqueIndex s" and "parseInt p = Some n" and "Some n \<in> set (map id' (tasks s))"
    and "s' = s\<lparr>tasks := filter (\<lambda>t. id' t \<noteq> Some n) (tasks s)\<rparr>"
  shows "router_delete s p = (s', 200, Message deleted)
       \<and> router_get s' p = (s', 404, Message notFound)"
proof -
  obtain t where t: "find (matches n) (tasks s) = Some t"
    using find_matches_exists [OF assms(3)] by blast
  have ts: "removeFirst (matches n) (tasks s) = filter (\<lambda>t. id' t \<noteq> Some n) (tasks s)"
    using removeFirst_unique [of "tasks s" n] assms(1) by (simp add: uniqueIndex_def)
  have del: "router_delete s p = (s', 200, Message deleted)"
    by (simp add: router_delete_def Task_findOneAndDelete_def assms(2,4) t ts)
  have "Some n \<notin> set (map id' (tasks s'))" by (auto simp: assms(4))
  then have "find (matches n) (tasks s') = None" by (rule find_matches_None)
  then have "router_get s' p = (s', 404, Message notFound)"
    by (simp add: router_get_def Task_findOne_def assms(2))
  with del show ?thesis by simp
qed

theorem delete_removes_witness:
  "router_delete pantry ''1'' = (\<lparr>tasks = [bread], seq = 2\<rparr>, 200, Message deleted)
   \<and> router_get \<lparr>tasks = [bread], seq = 2\<rparr> ''1'' =
       (\<lparr>tasks = [bread], seq = 2\<rparr>, 404, Message notFound)"
proof -
  have p: "parseInt ''1'' = Some 1"
    by (rule parseInt_1)
  have u: "uniqueIndex pantry"
    by (simp add: uniqueIndex_def pantry_def milk_def bread_def)
  have m: "Some 1 \<in> set (map id' (tasks pantry))"
    by (simp add: pantry_def milk_def)
  from delete_removes [OF u p m refl] show ?thesis
    by (simp add: pantry_def milk_def bread_def)
qed




text \<open>
  C10. Two POST bodies that agree on \<open>title\<close>, \<open>description\<close> and \<open>status\<close> have the
  same effect and the same response, whatever their other fields are.
\<close>

theorem post_reads_three_fields:
  assumes "b1 ''title'' = b2 ''title''"
    and "b1 ''description'' = b2 ''description''"
    and "b1 ''status'' = b2 ''status''"
  shows "router_post s now b1 = router_post s now b2"
proof -
  have "validationResult b1 = validationResult b2"
    by (simp only: validationResult_unfold assms)
  then show ?thesis
    by (simp only: router_post_def assms)
qed

theorem post_reads_three_fields_witness:
  "router_post pantry 3000 [''title'' \<mapsto> JStr ''a'', ''description'' \<mapsto> JStr ''b'']
   = router_post pantry 3000
       [''title'' \<mapsto> JStr ''a'', ''description'' \<mapsto> JStr ''b'', ''id'' \<mapsto> JNum 1,
        ''creationDate'' \<mapsto> JNum 0, ''owner'' \<mapsto> JStr ''root'']"
  using post_reads_three_fields
    [of "[''title'' \<mapsto> JStr ''a'', ''description'' \<mapsto> JStr ''b'']"
        "[''title'' \<mapsto> JStr ''a'', ''description'' \<mapsto> JStr ''b'', ''id'' \<mapsto> JNum 1,
          ''creationDate'' \<mapsto> JNum 0, ''owner'' \<mapsto> JStr ''root'']" pantry 3000]
  by simp

end
